theory Spec2Isabelle
  imports Main "HOL-Library.Word"
begin

section \<open>Python strings\<close>

text \<open>
  A Python \<open>str\<close> is modelled as a HOL \<open>string\<close>: the bytes of its UTF-8 encoding,
  which for ASCII text are its characters. Every literal of \<open>register.py\<close> that the
  functions below compare against is ASCII, and so are the strings \<open>lower\<close> and
  \<open>re.sub\<close> are applied to in the properties; \<open>isdigit\<close>, which the operator's input
  reaches, decodes the bytes and tests code points.
\<close>

definition endswith :: "string \<Rightarrow> string \<Rightarrow> bool" where
  "endswith s suf = (length suf \<le> length s \<and> drop (length s - length suf) s = suf)"

definition startswith :: "string \<Rightarrow> string \<Rightarrow> bool" where
  "startswith s pre = (take (length pre) s = pre)"

text \<open>\<open>sub in s\<close>: the substring test.\<close>

fun py_in :: "string \<Rightarrow> string \<Rightarrow> bool" where
  "py_in sub [] = (sub = [])"
| "py_in sub (c # cs) = (startswith (c # cs) sub \<or> py_in sub cs)"

definition char_isdigit :: "char \<Rightarrow> bool" where
  "char_isdigit c = (c \<in> set ''0123456789'')"

definition char_lower :: "char \<Rightarrow> char" where
  "char_lower c =
     (case map_of (zip ''ABCDEFGHIJKLMNOPQRSTUVWXYZ'' ''abcdefghijklmnopqrstuvwxyz'') c of
        Some l \<Rightarrow> l
      | None \<Rightarrow> c)"

definition py_lower :: "string \<Rightarrow> string" where
  "py_lower s = map char_lower s"

text \<open>
  Code points. \<open>utf8_decode\<close> reads the bytes of a string back into its code points; it
  is \<open>None\<close> on a byte list that is not the encoding of a string.
\<close>

definition utf8_continuation :: "char \<Rightarrow> bool" where
  "utf8_continuation c = ((0x80::nat) \<le> of_char c \<and> (of_char c :: nat) < 0xC0)"

definition utf8_two :: "char \<Rightarrow> char \<Rightarrow> nat" where
  "utf8_two c c1 = (of_char c - 0xC0) * 64 + (of_char c1 - 0x80)"

definition utf8_three :: "char \<Rightarrow> char \<Rightarrow> char \<Rightarrow> nat" where
  "utf8_three c c1 c2 =
     ((of_char c - 0xE0) * 64 + (of_char c1 - 0x80)) * 64 + (of_char c2 - 0x80)"

definition utf8_four :: "char \<Rightarrow> char \<Rightarrow> char \<Rightarrow> char \<Rightarrow> nat" where
  "utf8_four c c1 c2 c3 =
     (((of_char c - 0xF0) * 64 + (of_char c1 - 0x80)) * 64 + (of_char c2 - 0x80)) * 64
       + (of_char c3 - 0x80)"

definition is_utf8_two :: "char \<Rightarrow> char \<Rightarrow> bool" where
  "is_utf8_two c c1 =
     ((0xC2::nat) \<le> of_char c \<and> (of_char c :: nat) < 0xE0 \<and> utf8_continuation c1)"

definition is_utf8_three :: "char \<Rightarrow> char \<Rightarrow> char \<Rightarrow> bool" where
  "is_utf8_three c c1 c2 =
     ((0xE0::nat) \<le> of_char c \<and> (of_char c :: nat) < 0xF0 \<and>
      utf8_continuation c1 \<and> utf8_continuation c2 \<and> 0x800 \<le> utf8_three c c1 c2 \<and>
      (utf8_three c c1 c2 < 0xD800 \<or> 0xE000 \<le> utf8_three c c1 c2))"

definition is_utf8_four :: "char \<Rightarrow> char \<Rightarrow> char \<Rightarrow> char \<Rightarrow> bool" where
  "is_utf8_four c c1 c2 c3 =
     ((0xF0::nat) \<le> of_char c \<and> (of_char c :: nat) < 0xF5 \<and>
      utf8_continuation c1 \<and> utf8_continuation c2 \<and> utf8_continuation c3 \<and>
      0x10000 \<le> utf8_four c c1 c2 c3 \<and> utf8_four c c1 c2 c3 < 0x110000)"

fun utf8_decode :: "string \<Rightarrow> nat list option" where
  "utf8_decode [] = Some []"
| "utf8_decode [c] =
     (if (of_char c :: nat) < 0x80 then Some [of_char c] else None)"
| "utf8_decode [c, c1] =
     (if (of_char c :: nat) < 0x80 then map_option ((#) (of_char c)) (utf8_decode [c1])
      else if is_utf8_two c c1 then Some [utf8_two c c1]
      else None)"
| "utf8_decode [c, c1, c2] =
     (if (of_char c :: nat) < 0x80 then map_option ((#) (of_char c)) (utf8_decode [c1, c2])
      else if is_utf8_two c c1 then map_option ((#) (utf8_two c c1)) (utf8_decode [c2])
      else if is_utf8_three c c1 c2 then Some [utf8_three c c1 c2]
      else None)"
| "utf8_decode (c # c1 # c2 # c3 # cs) =
     (if (of_char c :: nat) < 0x80
        then map_option ((#) (of_char c)) (utf8_decode (c1 # c2 # c3 # cs))
      else if is_utf8_two c c1
        then map_option ((#) (utf8_two c c1)) (utf8_decode (c2 # c3 # cs))
      else if is_utf8_three c c1 c2
        then map_option ((#) (utf8_three c c1 c2)) (utf8_decode (c3 # cs))
      else if is_utf8_four c c1 c2 c3
        then map_option ((#) (utf8_four c c1 c2 c3)) (utf8_decode cs)
      else None)"

text \<open>
  The code points for which \<open>str.isdigit()\<close> holds (Unicode 14.0: the characters of numeric
  type Decimal or Digit), as inclusive ranges.
\<close>

definition unicode_digit_ranges :: "(nat \<times> nat) list" where
  "unicode_digit_ranges =
     [(0x30, 0x39), (0xB2, 0xB3), (0xB9, 0xB9), (0x660, 0x669), (0x6F0, 0x6F9),
      (0x7C0, 0x7C9), (0x966, 0x96F), (0x9E6, 0x9EF), (0xA66, 0xA6F), (0xAE6, 0xAEF),
      (0xB66, 0xB6F), (0xBE6, 0xBEF), (0xC66, 0xC6F), (0xCE6, 0xCEF), (0xD66, 0xD6F),
      (0xDE6, 0xDEF), (0xE50, 0xE59), (0xED0, 0xED9), (0xF20, 0xF29), (0x1040, 0x1049),
      (0x1090, 0x1099), (0x1369, 0x1371), (0x17E0, 0x17E9), (0x1810, 0x1819),
      (0x1946, 0x194F), (0x19D0, 0x19DA), (0x1A80, 0x1A89), (0x1A90, 0x1A99),
      (0x1B50, 0x1B59), (0x1BB0, 0x1BB9), (0x1C40, 0x1C49), (0x1C50, 0x1C59),
      (0x2070, 0x2070), (0x2074, 0x2079), (0x2080, 0x2089), (0x2460, 0x2468),
      (0x2474, 0x247C), (0x2488, 0x2490), (0x24EA, 0x24EA), (0x24F5, 0x24FD),
      (0x24FF, 0x24FF), (0x2776, 0x277E), (0x2780, 0x2788), (0x278A, 0x2792),
      (0xA620, 0xA629), (0xA8D0, 0xA8D9), (0xA900, 0xA909), (0xA9D0, 0xA9D9),
      (0xA9F0, 0xA9F9), (0xAA50, 0xAA59), (0xABF0, 0xABF9), (0xFF10, 0xFF19),
      (0x104A0, 0x104A9), (0x10A40, 0x10A43), (0x10D30, 0x10D39), (0x10E60, 0x10E68),
      (0x11052, 0x1105A), (0x11066, 0x1106F), (0x110F0, 0x110F9), (0x11136, 0x1113F),
      (0x111D0, 0x111D9), (0x112F0, 0x112F9), (0x11450, 0x11459), (0x114D0, 0x114D9),
      (0x11650, 0x11659), (0x116C0, 0x116C9), (0x11730, 0x11739), (0x118E0, 0x118E9),
      (0x11950, 0x11959), (0x11C50, 0x11C59), (0x11D50, 0x11D59), (0x11DA0, 0x11DA9),
      (0x16A60, 0x16A69), (0x16AC0, 0x16AC9), (0x16B50, 0x16B59), (0x1D7CE, 0x1D7FF),
      (0x1E140, 0x1E149), (0x1E2F0, 0x1E2F9), (0x1E950, 0x1E959), (0x1F100, 0x1F10A),
      (0x1FBF0, 0x1FBF9)]"

definition codepoint_isdigit :: "nat \<Rightarrow> bool" where
  "codepoint_isdigit cp = list_ex (\<lambda>r. fst r \<le> cp \<and> cp \<le> snd r) unicode_digit_ranges"

text \<open>\<open>str.isdigit()\<close>: at least one character, and all of them digits.\<close>

definition py_isdigit :: "string \<Rightarrow> bool" where
  "py_isdigit s =
     (case utf8_decode s of
        None \<Rightarrow> False
      | Some cps \<Rightarrow> cps \<noteq> [] \<and> list_all codepoint_isdigit cps)"

text \<open>
  \<open>re.sub(r'\\D', '', s)\<close> on ASCII text, as the labels of the version table are: every
  character that is not a digit is removed.
\<close>

definition re_sub_nondigit :: "string \<Rightarrow> string" where
  "re_sub_nondigit s = filter char_isdigit s"

text \<open>\<open>str(n)\<close> for an integer: its decimal digits.\<close>

function str_nat :: "nat \<Rightarrow> string" where
  "str_nat n =
     (if n < 10 then [''0123456789'' ! n]
      else str_nat (n div 10) @ [''0123456789'' ! (n mod 10)])"
  by pat_completeness auto
termination
  by (relation "measure (\<lambda>n. n)") auto

definition py_str :: "int \<Rightarrow> string" where
  "py_str i = (if i < 0 then CHR ''-'' # str_nat (nat (- i)) else str_nat (nat i))"

section \<open>JavaUtils\<close>

subsection \<open>java_version_from_major\<close>

definition version_mapping :: "(int \<times> string) list" where
  "version_mapping =
     [(45, ''Java 1.1''), (46, ''Java 1.2''), (47, ''Java 1.3''), (48, ''Java 1.4''),
      (49, ''Java 5''), (50, ''Java 6''), (51, ''Java 7''), (52, ''Java 8''),
      (53, ''Java 9''), (54, ''Java 10''), (55, ''Java 11''), (56, ''Java 12''),
      (57, ''Java 13''), (58, ''Java 14''), (59, ''Java 15''), (60, ''Java 16''),
      (61, ''Java 17''), (62, ''Java 18''), (63, ''Java 19''), (64, ''Java 20''),
      (65, ''Java 21''), (66, ''Java 22''), (67, ''Java 23''), (68, ''Java 24''),
      (69, ''Java 25''), (70, ''Java 26''), (71, ''Java 27''), (72, ''Java 28''),
      (73, ''Java 29''), (74, ''Java 30'')]"

text \<open>\<open>version_mapping.get(major_version, "Unknown Java version")\<close>\<close>

definition java_version_from_major :: "int \<Rightarrow> string" where
  "java_version_from_major major_version =
     (case map_of version_mapping major_version of
        Some label \<Rightarrow> label
      | None \<Rightarrow> ''Unknown Java version'')"

subsection \<open>download_openjdk\<close>

text \<open>
  The first statement of \<open>download_openjdk\<close> rewrites its argument:
  \<open>version = re.sub(r'\\D', '', version)\<close>. The result is the version string handed to
  \<open>jdk.get_download_url\<close> and used in the archive's file name.
\<close>

definition download_openjdk_version :: "string \<Rightarrow> string" where
  "download_openjdk_version version = re_sub_nondigit version"

text \<open>
  \<open>check_and_setup_java\<close> feeds the label of the detected major version to
  \<open>download_openjdk\<close>; this is the version it ends up asking for.
\<close>

definition requested_openjdk_version :: "int \<Rightarrow> string" where
  "requested_openjdk_version major_version =
     download_openjdk_version (java_version_from_major major_version)"

subsection \<open>get_java_version_of_file\<close>

type_synonym byte = "8 word"

datatype py_exception = IndexError | KeyError | BadZipFile | FileNotFoundError | RuntimeError

text \<open>
  An opened \<open>zipfile.ZipFile\<close>, as the code uses it: \<open>namelist()\<close> gives the entry
  names in archive order, and \<open>open(name)\<close> followed by \<open>read\<close> gives the bytes stored
  under a name, or raises (a damaged, encrypted or otherwise unreadable entry).
\<close>

record zip_archive =
  namelist :: "string list"
  entry_read :: "string \<Rightarrow> py_exception + byte list"

text \<open>Big-endian unsigned integer of a byte string, as \<open>struct.unpack('>I')\<close> and \<open>'>H'\<close> read it.\<close>

definition be_uint :: "byte list \<Rightarrow> int" where
  "be_uint bs = foldl (\<lambda>acc b. acc * 256 + uint b) 0 bs"

text \<open>\<open>struct.unpack('>IHH', header)\<close> on an 8-byte header: magic, minor, major.\<close>

definition unpack_IHH :: "byte list \<Rightarrow> int \<times> int \<times> int" where
  "unpack_IHH header =
     (be_uint (take 4 header), be_uint (take 2 (drop 4 header)), be_uint (take 2 (drop 6 header)))"

text \<open>
  The \<open>for file_name in jar.namelist()\<close> loop. It ends with the value returned
  (\<open>None\<close> when it falls out of the loop), or with the exception that opening or reading
  an entry raised.
\<close>

fun scan_class_files :: "zip_archive \<Rightarrow> string list \<Rightarrow> py_exception + int option" where
  "scan_class_files jar [] = Inr None"
| "scan_class_files jar (file_name # rest) =
     (if endswith file_name ''.class'' then
        (case entry_read jar file_name of
           Inl e \<Rightarrow> Inl e
         | Inr content \<Rightarrow>
             (let header = take 8 content in
              if length header < 8 then scan_class_files jar rest
              else (case unpack_IHH header of
                      (magic, minor_version, major_version) \<Rightarrow>
                        if magic \<noteq> 0xCAFEBABE then scan_class_files jar rest
                        else Inr (Some major_version))))
      else scan_class_files jar rest)"

text \<open>
  \<open>zipfile.ZipFile(jar_path, 'r')\<close> either raises or gives the archive. The
  \<open>try\<close> encloses the opening and the whole loop: whatever is raised, the
  \<open>except Exception\<close> branch logs it and returns \<open>None\<close>.
\<close>

definition get_java_version_of_file :: "py_exception + zip_archive \<Rightarrow> int option" where
  "get_java_version_of_file opened =
     (case opened of
        Inl e \<Rightarrow> None
      | Inr jar \<Rightarrow>
          (case scan_class_files jar (namelist jar) of
             Inl e \<Rightarrow> None
           | Inr found \<Rightarrow> found))"

text \<open>
  The entries of an archive file, in archive order: a name, and what reading the entry
  gives. \<open>ZipFile\<close> lists every name, duplicates included, and keeps one entry per name
  for \<open>open\<close>, the last one of that name.
\<close>

record zip_entry =
  filename :: string
  stored :: "py_exception + byte list"

definition zip_of_entries :: "zip_entry list \<Rightarrow> zip_archive" where
  "zip_of_entries es =
     \<lparr>namelist = map filename es,
      entry_read = (\<lambda>n.
        case map_of (rev (map (\<lambda>e. (filename e, stored e)) es)) n of
          None \<Rightarrow> Inl KeyError
        | Some r \<Rightarrow> r)\<rparr>"

text \<open>
  The entries the claim about the version reader speaks of: the name ends in \<open>.class\<close>
  and the content has at least 8 bytes, the first four being CA FE BA BE; the major
  version of such an entry is the big-endian number in its bytes 6 and 7.
\<close>

definition valid_class_entry :: "zip_entry \<Rightarrow> bool" where
  "valid_class_entry e =
     (endswith (filename e) ''.class'' \<and>
      (case stored e of
         Inl x \<Rightarrow> False
       | Inr bs \<Rightarrow> 8 \<le> length bs \<and> take 4 bs = [0xCA, 0xFE, 0xBA, 0xBE]))"

definition entry_major :: "zip_entry \<Rightarrow> int" where
  "entry_major e =
     (case stored e of
        Inl x \<Rightarrow> 0
      | Inr bs \<Rightarrow> 256 * uint (bs ! 6) + uint (bs ! 7))"

text \<open>
  Contents of class files: well-formed ones of major versions 52 and 61, a truncated one
  and one with a wrong magic number.
\<close>

definition class_v52 :: "byte list" where
  "class_v52 = [0xCA, 0xFE, 0xBA, 0xBE, 0, 0, 0, 0x34, 0, 0x10]"

definition class_v61 :: "byte list" where
  "class_v61 = [0xCA, 0xFE, 0xBA, 0xBE, 0, 0, 0, 0x3D]"

definition class_truncated :: "byte list" where
  "class_truncated = [0xCA, 0xFE, 0xBA]"

definition class_wrong_magic :: "byte list" where
  "class_wrong_magic = [0xCA, 0xFE, 0xBA, 0xBF, 0, 0, 0, 0x34]"

text \<open>
  Three archives: one with a manifest, a truncated and a wrong-magic class file before
  two well-formed ones; one in which the name \<open>A.class\<close> occurs twice, first well-formed,
  then truncated; one whose first class file cannot be read.
\<close>

definition example_jar :: "zip_entry list" where
  "example_jar =
     [\<lparr>filename = ''META-INF/MANIFEST.MF'', stored = Inr [0x4D, 0x61, 0x6E, 0x69, 0x66, 0x65, 0x73, 0x74, 0x2D]\<rparr>,
      \<lparr>filename = ''A.class'', stored = Inr class_truncated\<rparr>,
      \<lparr>filename = ''B.class'', stored = Inr class_wrong_magic\<rparr>,
      \<lparr>filename = ''C.class'', stored = Inr class_v52\<rparr>,
      \<lparr>filename = ''D.class'', stored = Inr class_v61\<rparr>]"

definition duplicate_name_jar :: "zip_entry list" where
  "duplicate_name_jar =
     [\<lparr>filename = ''A.class'', stored = Inr class_v52\<rparr>,
      \<lparr>filename = ''A.class'', stored = Inr class_truncated\<rparr>]"

definition unreadable_entry_jar :: "zip_entry list" where
  "unreadable_entry_jar =
     [\<lparr>filename = ''A.class'', stored = Inl RuntimeError\<rparr>,
      \<lparr>filename = ''B.class'', stored = Inr class_v52\<rparr>]"

section \<open>GithubUtils\<close>

record asset =
  name :: string
  browser_download_url :: string

text \<open>
  \<open>get_latest_release\<close>, given the assets of the repository's latest release in the
  order \<open>get_assets()\<close> yields them.
\<close>

fun get_latest_release :: "asset list \<Rightarrow> asset option" where
  "get_latest_release [] = None"
| "get_latest_release (a # rest) =
     (if endswith (name a) ''.tar.gz'' \<and> \<not> py_in ''linux'' (py_lower (name a)) then Some a
      else get_latest_release rest)"

text \<open>
  The selection as the specification words it: any of five archive suffixes, and no
  \<open>linux\<close> in the lowercased name; the first match.
\<close>

definition spec_archive_suffixes :: "string list" where
  "spec_archive_suffixes = [''.tar.gz'', ''.tar.bz2'', ''.zip'', ''.rar'', ''.7z'']"

definition spec_asset_selection :: "asset list \<Rightarrow> asset option" where
  "spec_asset_selection assets =
     find (\<lambda>a. list_ex (endswith (name a)) spec_archive_suffixes \<and>
                \<not> py_in ''linux'' (py_lower (name a))) assets"

section \<open>Files\<close>

datatype fs_node = Directory | RegularFile string

type_synonym filesystem = "string \<rightharpoonup> fs_node"

definition os_path_exists :: "filesystem \<Rightarrow> string \<Rightarrow> bool" where
  "os_path_exists fs p = (case fs p of None \<Rightarrow> False | Some node \<Rightarrow> True)"


text \<open>
  The zip library and the file-system calls \<open>extract_zip\<close> relies on:
  \<open>os.path.join\<close>, \<open>os.makedirs(..., exist_ok=True)\<close> and \<open>ZipFile.extractall\<close>.
\<close>

record os_lib =
  path_join :: "string \<Rightarrow> string \<Rightarrow> string"
  makedirs :: "filesystem \<Rightarrow> string \<Rightarrow> filesystem"
  extractall :: "zip_archive \<Rightarrow> string \<Rightarrow> filesystem \<Rightarrow> filesystem"

section \<open>FileUtils\<close>

text \<open>
  The destination of \<open>extract_zip\<close>: \<open>if folder_name:\<close> is Python truthiness, so
  \<open>None\<close> and the empty string both select the archive's first folder.
\<close>

definition extract_zip_destination ::
  "os_lib \<Rightarrow> string \<Rightarrow> string option \<Rightarrow> string \<Rightarrow> string" where
  "extract_zip_destination lib extract_to folder_name first_folder =
     (case folder_name of
        None \<Rightarrow> path_join lib extract_to first_folder
      | Some f \<Rightarrow>
          if f \<noteq> [] then path_join lib extract_to f
          else path_join lib extract_to first_folder)"

text \<open>
  \<open>extract_zip\<close> on an opened archive. \<open>zip_ref.namelist()[0]\<close> raises \<open>IndexError\<close>
  on an archive without entries; \<open>split('/')[0]\<close> is the name up to its first slash.
  The result is the file system afterwards and the messages logged.
\<close>

definition extract_zip ::
  "os_lib \<Rightarrow> filesystem \<Rightarrow> string \<Rightarrow> zip_archive \<Rightarrow> string \<Rightarrow> string option
     \<Rightarrow> py_exception + (filesystem \<times> string list)" where
  "extract_zip lib fs file_path zip_ref extract_to folder_name =
     (case namelist zip_ref of
        [] \<Rightarrow> Inl IndexError
      | first_name # others \<Rightarrow>
          (let first_folder = takeWhile (\<lambda>c. c \<noteq> CHR ''/'') first_name;
               dest = extract_zip_destination lib extract_to folder_name first_folder
           in if os_path_exists fs dest then
                Inr (fs, [''Extracting '' @ file_path,
                          ''Extraction aborted: '' @ first_folder @ '' already exists.''])
              else
                Inr (extractall lib zip_ref dest (makedirs lib fs dest),
                     [''Extracting '' @ file_path, ''Extraction complete to '' @ dest])))"

section \<open>SignalCLISetup\<close>

subsection \<open>modify_batch_file\<close>












datatype py_value = PyNone | PyBool bool | PyStr string





section \<open>SignalCLIInteraction\<close>

text \<open>
  How a call ended: it returned, it called \<open>exit(n)\<close>, or an exception escaped. With it,
  the messages passed to \<open>Logger.log\<close> and the commands passed to \<open>subprocess.run\<close>.
\<close>

datatype ending = Returned | SystemExit int | Raised py_exception

record session_trace =
  ended :: ending
  logged :: "string list"
  invoked :: "string list"

text \<open>
  \<open>str.strip()\<close> on ASCII text: the white space characters of ASCII are removed at both
  ends. The properties below do not depend on what is stripped.
\<close>

definition char_isspace :: "char \<Rightarrow> bool" where
  "char_isspace c = (c \<in> set [CHR 0x20, CHR 0x09, CHR 0x0A, CHR 0x0B, CHR 0x0C, CHR 0x0D,
                               CHR 0x1C, CHR 0x1D, CHR 0x1E, CHR 0x1F])"

definition py_strip :: "string \<Rightarrow> string" where
  "py_strip s = rev (dropWhile char_isspace (rev (dropWhile char_isspace s)))"

text \<open>
  \<open>verify\<close>; \<open>run\<close> stands for the external client: it maps a command line to the text
  the process writes to standard error.
\<close>

definition verify :: "(string \<Rightarrow> string) \<Rightarrow> string \<Rightarrow> string \<Rightarrow> string \<Rightarrow> session_trace" where
  "verify run signal_cli_path phone_number code =
     (if \<not> py_isdigit code then
        \<lparr>ended = SystemExit 1, logged = [''Invalid code''], invoked = []\<rparr>
      else
        (let command = signal_cli_path @ '' -u '' @ phone_number @ '' verify '' @ code;
             error = py_strip (run command)
         in if py_in ''Verify error'' error then
              \<lparr>ended = SystemExit 1,
               logged = [''Verifying code'', ''Failed to verify code'', error],
               invoked = [command]\<rparr>
            else
              \<lparr>ended = Returned,
               logged = [''Verifying code'', ''Successfully verified the account''],
               invoked = [command]\<rparr>))"

text \<open>
  \<open>add_device\<close>; \<open>decode_image\<close> stands for \<open>decode(Image.open(screenshot))\<close>: the text
  payloads of the QR regions found in the image, in the decoder's order. Indexing the
  empty list with \<open>[0]\<close> raises \<open>IndexError\<close>.
\<close>

definition add_device ::
  "filesystem \<Rightarrow> (string \<Rightarrow> string list) \<Rightarrow> (string \<Rightarrow> string) \<Rightarrow> string \<Rightarrow> string \<Rightarrow> string
     \<Rightarrow> session_trace" where
  "add_device fs decode_image run signal_cli_path phone_number screenshot =
     (if \<not> os_path_exists fs screenshot then
        \<lparr>ended = SystemExit 1, logged = [''Invalid path''], invoked = []\<rparr>
      else
        (case decode_image screenshot of
           [] \<Rightarrow> \<lparr>ended = Raised IndexError, logged = [], invoked = []\<rparr>
         | payload # others \<Rightarrow>
             if payload = [] then
               \<lparr>ended = SystemExit 1, logged = [''Failed to decode QR Code''], invoked = []\<rparr>
             else
               (let command = signal_cli_path @ '' -u '' @ phone_number @ '' addDevice --uri ''
                                @ [CHR 0x22] @ payload @ [CHR 0x22] @ '' '';
                    error = py_strip (run command)
                in if py_in ''invalid format'' error \<or> py_in ''failed'' error then
                     \<lparr>ended = SystemExit 1,
                      logged = [''Adding Device'', ''Failed to add device'', error],
                      invoked = [command]\<rparr>
                   else
                     \<lparr>ended = Returned,
                      logged = [''Adding Device'', ''Successfully added device''],
                      invoked = [command]\<rparr>)))"

section \<open>Example inputs\<close>


text \<open>
  A simple library: paths are joined with a slash, \<open>makedirs\<close> records the directory,
  and \<open>extractall\<close> stores every entry below the destination.
\<close>

definition example_lib :: os_lib where
  "example_lib =
     \<lparr>path_join = (\<lambda>a b. a @ ''/'' @ b),
      makedirs = (\<lambda>fs p. fs(p \<mapsto> Directory)),
      extractall = (\<lambda>z dest fs.
        foldl (\<lambda>acc n. acc(dest @ ''/'' @ n \<mapsto>
                 RegularFile (case entry_read z n of
                                Inl e \<Rightarrow> []
                              | Inr bs \<Rightarrow> map (\<lambda>b. char_of (unat b)) bs)))
          fs (namelist z))\<rparr>"

definition empty_zip :: zip_archive where
  "empty_zip = \<lparr>namelist = [], entry_read = (\<lambda>n. Inl KeyError)\<rparr>"

definition jdk_zip :: zip_archive where
  "jdk_zip =
     \<lparr>namelist = [''jdk21.0.4_7/bin/java.exe''], entry_read = (\<lambda>n. Inr [0x4D, 0x5A])\<rparr>"

text \<open>A file system in which the runtime has been unpacked before.\<close>

definition installed_fs :: filesystem where
  "installed_fs =
     [''assets'' \<mapsto> Directory, ''assets/openjdk'' \<mapsto> Directory,
      ''assets/openjdk/jdk21.0.4_7/bin/java.exe'' \<mapsto> RegularFile ''MZ'']"

text \<open>An external client that writes nothing to standard error, and a decoder that finds no QR code.\<close>

definition silent_client :: "string \<Rightarrow> string" where
  "silent_client command = []"

definition blank_decoder :: "string \<Rightarrow> string list" where
  "blank_decoder screenshot = []"

section \<open>Properties\<close>

lemma version_mapping_outside:
  "m < 45 \<or> 74 < m \<Longrightarrow> map_of version_mapping m = None"
  by (auto simp: version_mapping_def)

text \<open>
  C5, as the code has it: major 52 is labelled \<open>Java 8\<close>, and every major number
  outside 45..74 gets the sentinel label, which is \<open>Unknown Java version\<close>; the
  lookup never fails.
\<close>

theorem java_version_from_major_table:
  "java_version_from_major 52 = ''Java 8'' \<and>
   (\<forall>m. m < 45 \<or> 74 < m \<longrightarrow> java_version_from_major m = ''Unknown Java version'')"
proof
  show "java_version_from_major 52 = ''Java 8''"
    by (simp add: java_version_from_major_def version_mapping_def)
next
  show "\<forall>m. m < 45 \<or> 74 < m \<longrightarrow> java_version_from_major m = ''Unknown Java version''"
    by (simp add: java_version_from_major_def version_mapping_outside)
qed

text \<open>C5 at the out-of-table major 999.\<close>

theorem java_version_from_major_table_witness:
  "((999::int) < 45 \<or> 74 < (999::int)) \<and>
   java_version_from_major 999 = ''Unknown Java version''"
  using java_version_from_major_table by simp

text \<open>
  C5 as stated fails: the label of an out-of-table major such as 999 is not the
  string \<open>Unknown\<close>.
\<close>

theorem java_version_from_major_999_counterexample:
  "java_version_from_major 999 \<noteq> ''Unknown''"
  by (simp add: java_version_from_major_def version_mapping_def)

subsection \<open>The version requested for a detected major\<close>

lemma requested_openjdk_version_unfold:
  "requested_openjdk_version m =
     filter char_isdigit
       (case map_of version_mapping m of Some l \<Rightarrow> l | None \<Rightarrow> ''Unknown Java version'')"
  by (simp add: requested_openjdk_version_def download_openjdk_version_def
      java_version_from_major_def re_sub_nondigit_def)

lemma requested_modern_all:
  "list_all (\<lambda>k. requested_openjdk_version k = py_str (k - 44)) [49..74]"
  by (simp add: requested_openjdk_version_unfold version_mapping_def char_isdigit_def
      py_str_def)

lemma requested_modern:
  assumes "49 \<le> (m::int)" "m \<le> 74"
  shows "requested_openjdk_version m = py_str (m - 44)"
proof -
  have "m \<in> {49..74}" using assms by (simp only: atLeastAtMost_iff)
  then have "m \<in> set [49..74]" by (simp only: set_upto)
  with requested_modern_all show ?thesis
    unfolding list_all_iff by blast
qed

text \<open>
  C8: for the legacy majors 45 to 48 the digits left of the labels \<open>Java 1.1\<close> to
  \<open>Java 1.4\<close> are 11, 12, 13 and 14, so major 45 asks for the same version as major 55
  (Java 11); for the majors 49 to 74 the requested version is the decimal of the major
  minus 44.
\<close>

theorem requested_openjdk_version_legacy:
  "requested_openjdk_version 45 = ''11'' \<and> requested_openjdk_version 46 = ''12'' \<and>
   requested_openjdk_version 47 = ''13'' \<and> requested_openjdk_version 48 = ''14'' \<and>
   java_version_from_major 45 = ''Java 1.1'' \<and>
   requested_openjdk_version 45 = requested_openjdk_version 55 \<and>
   (\<forall>m. 49 \<le> m \<and> m \<le> 74 \<longrightarrow> requested_openjdk_version m = py_str (m - 44))"
proof (intro conjI allI impI)
  show "java_version_from_major 45 = ''Java 1.1''"
    by (simp add: java_version_from_major_def version_mapping_def)
next
  fix m :: int
  assume "49 \<le> m \<and> m \<le> 74"
  then show "requested_openjdk_version m = py_str (m - 44)"
    by (simp add: requested_modern)
qed (simp_all add: requested_openjdk_version_unfold version_mapping_def char_isdigit_def)

text \<open>C8 at major 52: \<open>Java 8\<close> asks for version 8.\<close>

theorem requested_openjdk_version_legacy_witness:
  "(49::int) \<le> 52 \<and> (52::int) \<le> 74 \<and> requested_openjdk_version 52 = ''8''"
  using requested_openjdk_version_legacy by (simp add: py_str_def)

subsection \<open>The class-file version reader\<close>

lemma be_uint4: "be_uint [b0,b1,b2,b3] = ((uint b0 * 256 + uint b1) * 256 + uint b2) * 256 + uint b3"
  by (simp add: be_uint_def)

lemma split256:
  fixes x d n :: int
  assumes "0 \<le> d" "d < 256" "x * 256 + d = n"
  shows "d = n mod 256 \<and> x = n div 256"
proof -
  have "n mod 256 = d" using assms(1,2) by (simp flip: assms(3))
  moreover have "n div 256 = x" using assms(1,2) by (simp flip: assms(3))
  ultimately show ?thesis by simp
qed

lemma magic_bytes:
  fixes b0 b1 b2 b3 :: byte
  shows "be_uint [b0,b1,b2,b3] = 0xCAFEBABE \<longleftrightarrow> b0 = 0xCA \<and> b1 = 0xFE \<and> b2 = 0xBA \<and> b3 = 0xBE"
proof
  assume e: "be_uint [b0,b1,b2,b3] = 0xCAFEBABE"
  have r: "0 \<le> uint b0" "uint b0 < 256" "0 \<le> uint b1" "uint b1 < 256"
     "0 \<le> uint b2" "uint b2 < 256" "0 \<le> uint b3" "uint b3 < 256"
    using uint_lt2p [of b0] uint_lt2p [of b1] uint_lt2p [of b2] uint_lt2p [of b3] by simp_all
  from e have e3: "((uint b0 * 256 + uint b1) * 256 + uint b2) * 256 + uint b3 = 3405691582"
    by (simp add: be_uint4)
  from split256 [OF r(7) r(8) e3] have d3: "uint b3 = 190" and e2: "(uint b0 * 256 + uint b1) * 256 + uint b2 = 13303482"
    by simp_all
  from split256 [OF r(5) r(6) e2] have d2: "uint b2 = 186" and e1: "uint b0 * 256 + uint b1 = 51966"
    by simp_all
  from split256 [OF r(3) r(4) e1] have d1: "uint b1 = 254" and d0: "uint b0 = 202"
    by simp_all
  have "b0 = word_of_int 202" "b1 = word_of_int 254" "b2 = word_of_int 186" "b3 = word_of_int 190"
    using d0 d1 d2 d3 word_of_int_uint [of b0] word_of_int_uint [of b1] word_of_int_uint [of b2] word_of_int_uint [of b3]
    by simp_all
  then show "b0 = 0xCA \<and> b1 = 0xFE \<and> b2 = 0xBA \<and> b3 = 0xBE" by simp
next
  assume "b0 = 0xCA \<and> b1 = 0xFE \<and> b2 = 0xBA \<and> b3 = 0xBE"
  then show "be_uint [b0,b1,b2,b3] = 0xCAFEBABE" by (simp add: be_uint4)
qed

lemma len8:
  "length h = 8 \<Longrightarrow> \<exists>b0 b1 b2 b3 b4 b5 b6 b7. h = [b0,b1,b2,b3,b4,b5,b6,b7]"
  by (auto simp: eval_nat_numeral length_Suc_conv)

lemma header8:
  assumes "8 \<le> length bs"
  shows "\<exists>b0 b1 b2 b3 b4 b5 b6 b7 rest. bs = b0 # b1 # b2 # b3 # b4 # b5 # b6 # b7 # rest"
proof -
  have "length (take 8 bs) = 8" using assms by simp
  then obtain b0 b1 b2 b3 b4 b5 b6 b7 where "take 8 bs = [b0,b1,b2,b3,b4,b5,b6,b7]"
    using len8 by blast
  then have "bs = [b0,b1,b2,b3,b4,b5,b6,b7] @ drop 8 bs"
    by (metis append_take_drop_id)
  then have "bs = b0 # b1 # b2 # b3 # b4 # b5 # b6 # b7 # drop 8 bs"
    by simp
  then show ?thesis by (intro exI)
qed

lemma unpack8:
  "unpack_IHH [b0,b1,b2,b3,b4,b5,b6,b7] =
     (be_uint [b0,b1,b2,b3], be_uint [b4,b5], 256 * uint b6 + uint b7)"
  by (simp add: unpack_IHH_def be_uint_def)

text \<open>One round of the loop, in terms of what reading the name gives.\<close>

lemma scan_raises:
  "endswith n ''.class'' \<Longrightarrow> entry_read jar n = Inl x \<Longrightarrow>
   scan_class_files jar (n # rest) = Inl x"
  by simp

lemma scan_other_name:
  "\<not> endswith n ''.class'' \<Longrightarrow> scan_class_files jar (n # rest) = scan_class_files jar rest"
  by simp

lemma scan_reads:
  assumes "endswith n ''.class''" and "entry_read jar n = Inr bs"
  shows "scan_class_files jar (n # rest) =
           (if 8 \<le> length bs \<and> take 4 bs = [0xCA, 0xFE, 0xBA, 0xBE]
            then Inr (Some (256 * uint (bs ! 6) + uint (bs ! 7)))
            else scan_class_files jar rest)"
proof (cases "8 \<le> length bs")
  case False
  with assms show ?thesis by (simp add: Let_def)
next
  case True
  then obtain b0 b1 b2 b3 b4 b5 b6 b7 tl where
    bs: "bs = b0 # b1 # b2 # b3 # b4 # b5 # b6 # b7 # tl"
    using header8 by blast
  show ?thesis
    using assms magic_bytes [of b0 b1 b2 b3]
    by (auto simp: unpack8 Let_def bs)
qed

text \<open>With distinct names, reading a name gives what its entry stores.\<close>

lemma read_own_entry:
  assumes "distinct (map filename es)" and "e \<in> set es"
  shows "entry_read (zip_of_entries es) (filename e) = stored e"
proof -
  let ?xs = "rev (map (\<lambda>e. (filename e, stored e)) es)"
  have "map fst ?xs = rev (map filename es)"
    by (induction es) simp_all
  then have "distinct (map fst ?xs)"
    using assms(1) by simp
  moreover have "(filename e, stored e) \<in> set ?xs"
    using assms(2) by auto
  ultimately have "map_of ?xs (filename e) = Some (stored e)"
    by simp
  then show ?thesis by (simp add: zip_of_entries_def)
qed

text \<open>In any archive, reading a listed name gives what some entry of that name stores.\<close>

lemma read_some_entry:
  assumes "n \<in> filename ` set es"
  shows "\<exists>e\<in>set es. filename e = n \<and> entry_read (zip_of_entries es) n = stored e"
proof -
  let ?xs = "rev (map (\<lambda>e. (filename e, stored e)) es)"
  have s: "set ?xs = (\<lambda>e. (filename e, stored e)) ` set es"
    by simp
  have "fst ` set ?xs = filename ` set es"
    unfolding s by (simp add: image_image)
  with assms have "map_of ?xs n \<noteq> None"
    by (simp only: map_of_eq_None_iff not_not)
  then obtain r where r: "map_of ?xs n = Some r"
    by blast
  then have "(n, r) \<in> set ?xs"
    by (rule map_of_SomeD)
  then have "(n, r) \<in> (\<lambda>e. (filename e, stored e)) ` set es"
    unfolding s .
  then obtain e where e: "e \<in> set es" "filename e = n" "stored e = r"
    by blast
  have "entry_read (zip_of_entries es) n = r"
    using r by (simp add: zip_of_entries_def)
  with e show ?thesis
    by (intro bexI [where x = e]) simp_all
qed

lemma scan_first_valid:
  assumes "\<forall>p\<in>set pre. entry_read jar (filename p) = stored p \<and> \<not> valid_class_entry p \<and>
             (endswith (filename p) ''.class'' \<longrightarrow> \<not> isl (stored p))"
    and "entry_read jar (filename e) = stored e" and "valid_class_entry e"
  shows "scan_class_files jar (map filename pre @ filename e # rest) = Inr (Some (entry_major e))"
  using assms(1)
proof (induction pre)
  case Nil
  from assms(3) obtain bs where bs: "stored e = Inr bs" "8 \<le> length bs"
      "take 4 bs = [0xCA, 0xFE, 0xBA, 0xBE]" and c: "endswith (filename e) ''.class''"
    by (auto simp: valid_class_entry_def split: sum.splits)
  from scan_reads [OF c, of jar bs rest] assms(2) bs show ?case
    by (simp add: entry_major_def)
next
  case (Cons p pre)
  then have ih: "scan_class_files jar (map filename pre @ filename e # rest) =
      Inr (Some (entry_major e))" by simp
  show ?case
  proof (cases "endswith (filename p) ''.class''")
    case False
    then show ?thesis using ih by simp
  next
    case True
    with Cons.prems obtain bs where bs: "stored p = Inr bs"
      by (cases "stored p") auto
    from Cons.prems True bs have nv: "\<not> (8 \<le> length bs \<and> take 4 bs = [0xCA, 0xFE, 0xBA, 0xBE])"
      by (auto simp: valid_class_entry_def)
    from Cons.prems bs have r: "entry_read jar (filename p) = Inr bs" by simp
    from scan_reads [OF True r, of "map filename pre @ filename e # rest"] nv ih
    show ?thesis by auto
  qed
qed

lemma scan_no_valid:
  assumes "\<forall>m\<in>set es. \<not> valid_class_entry m" and "set ns \<subseteq> filename ` set es"
  shows "scan_class_files (zip_of_entries es) ns \<noteq> Inr (Some v)"
  using assms(2)
proof (induction ns)
  case Nil
  then show ?case by simp
next
  case (Cons n ns)
  then have ih: "scan_class_files (zip_of_entries es) ns \<noteq> Inr (Some v)" by simp
  show ?case
  proof (cases "endswith n ''.class''")
    case False
    then show ?thesis using ih by simp
  next
    case True
    from Cons.prems have "n \<in> filename ` set es" by simp
    then obtain e where e: "e \<in> set es" "filename e = n"
        "entry_read (zip_of_entries es) n = stored e"
      using read_some_entry by blast
    show ?thesis
    proof (cases "stored e")
      case (Inl x)
      with e True show ?thesis by simp
    next
      case (Inr bs)
      from assms(1) e True Inr have nv: "\<not> (8 \<le> length bs \<and> take 4 bs = [0xCA, 0xFE, 0xBA, 0xBE])"
        by (auto simp: valid_class_entry_def)
      from e Inr have r: "entry_read (zip_of_entries es) n = Inr bs" by simp
      from scan_reads [OF True r, of ns] nv ih show ?thesis by auto
    qed
  qed
qed

text \<open>
  C1, as the code has it: in an archive whose entry names are distinct, when every
  \<open>.class\<close> entry before the first valid one can be read (so that it is skipped for a
  short header or a wrong magic number), \<open>get_java_version_of_file\<close> returns the
  big-endian major version (bytes 6 and 7) of the first valid entry in archive order.
  With no valid entry, and also when the archive cannot be opened, the result is
  \<open>None\<close>.
\<close>

theorem get_java_version_of_file_first_valid:
  "(es = pre @ e # post \<and> distinct (map filename es) \<and> valid_class_entry e \<and>
      (\<forall>p\<in>set pre. \<not> valid_class_entry p \<and>
         (endswith (filename p) ''.class'' \<longrightarrow> \<not> isl (stored p)))
     \<longrightarrow> get_java_version_of_file (Inr (zip_of_entries es)) = Some (entry_major e)) \<and>
   ((\<forall>m\<in>set es. \<not> valid_class_entry m)
     \<longrightarrow> get_java_version_of_file (Inr (zip_of_entries es)) = None) \<and>
   get_java_version_of_file (Inl x) = None"
proof (intro conjI impI)
  assume a: "es = pre @ e # post \<and> distinct (map filename es) \<and> valid_class_entry e \<and>
      (\<forall>p\<in>set pre. \<not> valid_class_entry p \<and>
         (endswith (filename p) ''.class'' \<longrightarrow> \<not> isl (stored p)))"
  then have own: "\<forall>p\<in>set (pre @ [e]). entry_read (zip_of_entries es) (filename p) = stored p"
    by (auto simp: read_own_entry)
  have "scan_class_files (zip_of_entries es) (map filename pre @ filename e # map filename post) =
      Inr (Some (entry_major e))"
    by (rule scan_first_valid) (use a own in auto)
  moreover have "namelist (zip_of_entries es) = map filename pre @ filename e # map filename post"
    using a by (simp add: zip_of_entries_def)
  ultimately show "get_java_version_of_file (Inr (zip_of_entries es)) = Some (entry_major e)"
    by (simp add: get_java_version_of_file_def)
next
  assume n: "\<forall>m\<in>set es. \<not> valid_class_entry m"
  have nl: "namelist (zip_of_entries es) = map filename es"
    by (simp add: zip_of_entries_def)
  have nv: "\<And>v. scan_class_files (zip_of_entries es) (map filename es) \<noteq> Inr (Some v)"
    by (rule scan_no_valid [OF n]) simp
  show "get_java_version_of_file (Inr (zip_of_entries es)) = None"
  proof (cases "scan_class_files (zip_of_entries es) (map filename es)")
    case (Inl raised)
    then show ?thesis by (simp add: get_java_version_of_file_def nl)
  next
    case (Inr found)
    with nv have "found = None" by (cases found) auto
    with Inr show ?thesis by (simp add: get_java_version_of_file_def nl)
  qed
next
  show "get_java_version_of_file (Inl x) = None"
    by (simp add: get_java_version_of_file_def)
qed

text \<open>
  C1 on the example archive: the truncated \<open>A.class\<close> and the wrong-magic \<open>B.class\<close> are
  skipped, \<open>C.class\<close> decides (major 52), and without the valid entries nothing is found.
\<close>

theorem get_java_version_of_file_first_valid_witness:
  "get_java_version_of_file (Inr (zip_of_entries example_jar)) = Some 52 \<and>
   get_java_version_of_file (Inr (zip_of_entries (take 3 example_jar))) = None"
proof
  show "get_java_version_of_file (Inr (zip_of_entries example_jar)) = Some 52"
    using get_java_version_of_file_first_valid
      [of example_jar "take 3 example_jar" "example_jar ! 3" "drop 4 example_jar"]
    by (simp add: example_jar_def valid_class_entry_def entry_major_def endswith_def
        class_v52_def class_v61_def class_truncated_def class_wrong_magic_def)
next
  show "get_java_version_of_file (Inr (zip_of_entries (take 3 example_jar))) = None"
    using get_java_version_of_file_first_valid [of "take 3 example_jar"]
    by (simp add: example_jar_def valid_class_entry_def endswith_def
        class_truncated_def class_wrong_magic_def)
qed

text \<open>
  C1 as stated fails. When a name occurs twice, both rounds of the loop read the later
  entry: the archive holds a valid first entry, and the result is \<open>None\<close>. When an
  entry before the first valid one cannot be read, the exception ends the loop and the
  result is \<open>None\<close> as well.
\<close>

theorem get_java_version_of_file_counterexample:
  "valid_class_entry (duplicate_name_jar ! 0) \<and>
   get_java_version_of_file (Inr (zip_of_entries duplicate_name_jar)) = None \<and>
   valid_class_entry (unreadable_entry_jar ! 1) \<and>
   get_java_version_of_file (Inr (zip_of_entries unreadable_entry_jar)) = None"
  by (simp add: duplicate_name_jar_def unreadable_entry_jar_def valid_class_entry_def
      get_java_version_of_file_def zip_of_entries_def endswith_def class_v52_def
      class_truncated_def)

subsection \<open>Release asset selection\<close>

lemma get_latest_release_find:
  "get_latest_release assets =
     find (\<lambda>a. endswith (name a) ''.tar.gz'' \<and> \<not> py_in ''linux'' (py_lower (name a))) assets"
  by (induction assets) simp_all

text \<open>
  C2, as the code has it: the asset selected is the first one whose name ends in
  \<open>.tar.gz\<close> (the only suffix the code accepts) and whose lowercased name does not
  contain \<open>linux\<close>; for the list of \<open>signal-cli-1.0-linux.tar.gz\<close> and
  \<open>signal-cli-1.0.tar.gz\<close> it is the second asset.
\<close>

theorem get_latest_release_selection:
  "get_latest_release assets =
     find (\<lambda>a. endswith (name a) ''.tar.gz'' \<and> \<not> py_in ''linux'' (py_lower (name a))) assets \<and>
   get_latest_release
     [\<lparr>name = ''signal-cli-1.0-linux.tar.gz'', browser_download_url = ''https://example.org/1''\<rparr>,
      \<lparr>name = ''signal-cli-1.0.tar.gz'', browser_download_url = ''https://example.org/2''\<rparr>]
     = Some \<lparr>name = ''signal-cli-1.0.tar.gz'', browser_download_url = ''https://example.org/2''\<rparr>"
  by (simp add: get_latest_release_find endswith_def py_lower_def char_lower_def startswith_def)

text \<open>
  C2 as stated fails: with a \<open>.zip\<close> asset listed before a \<open>.tar.gz\<close> asset, the
  selection over the five suffixes differs from what \<open>get_latest_release\<close> returns.
\<close>

theorem get_latest_release_zip_counterexample:
  "get_latest_release
     [\<lparr>name = ''signal-cli-1.0.zip'', browser_download_url = ''https://example.org/1''\<rparr>,
      \<lparr>name = ''signal-cli-1.0.tar.gz'', browser_download_url = ''https://example.org/2''\<rparr>]
   \<noteq> spec_asset_selection
     [\<lparr>name = ''signal-cli-1.0.zip'', browser_download_url = ''https://example.org/1''\<rparr>,
      \<lparr>name = ''signal-cli-1.0.tar.gz'', browser_download_url = ''https://example.org/2''\<rparr>]"
  by (simp add: spec_asset_selection_def spec_archive_suffixes_def endswith_def py_lower_def
      char_lower_def startswith_def)

subsection \<open>The launcher patcher\<close>





















subsection \<open>Zip extraction\<close>

text \<open>
  C7, as the code has it: for an archive with at least one entry, the destination of
  \<open>extract_zip\<close> is \<open>extract_to\<close> joined with the subfolder override when one is given and
  not empty, and with the first entry's name up to its first slash otherwise. When the
  destination exists, the call returns without an exception and leaves the file system as
  it was, so a second run does the same; otherwise the directory is created and the
  archive extracted into it.
\<close>

theorem extract_zip_existing_destination:
  "namelist zip_ref = first_name # others \<and>
   dest = path_join lib extract_to
            (case folder_name of
               None \<Rightarrow> takeWhile (\<lambda>c. c \<noteq> CHR ''/'') first_name
             | Some f \<Rightarrow> if f \<noteq> [] then f else takeWhile (\<lambda>c. c \<noteq> CHR ''/'') first_name) \<longrightarrow>
   (os_path_exists fs dest \<longrightarrow>
      extract_zip lib fs file_path zip_ref extract_to folder_name =
        Inr (fs, [''Extracting '' @ file_path,
                  ''Extraction aborted: '' @ takeWhile (\<lambda>c. c \<noteq> CHR ''/'') first_name
                    @ '' already exists.'']) \<and>
      (\<forall>fs' log. extract_zip lib fs file_path zip_ref extract_to folder_name = Inr (fs', log) \<longrightarrow>
         extract_zip lib fs' file_path zip_ref extract_to folder_name = Inr (fs', log))) \<and>
   (\<not> os_path_exists fs dest \<longrightarrow>
      extract_zip lib fs file_path zip_ref extract_to folder_name =
        Inr (extractall lib zip_ref dest (makedirs lib fs dest),
             [''Extracting '' @ file_path, ''Extraction complete to '' @ dest]))"
  by (auto simp: extract_zip_def extract_zip_destination_def Let_def split: option.splits)

text \<open>C7 on a file system where the runtime was unpacked before: nothing changes.\<close>

theorem extract_zip_existing_destination_witness:
  "os_path_exists installed_fs ''assets/openjdk'' \<and>
   extract_zip example_lib installed_fs ''assets/openjdk-21.zip'' jdk_zip ''assets'' (Some ''openjdk'') =
     Inr (installed_fs, [''Extracting assets/openjdk-21.zip'',
                         ''Extraction aborted: jdk21.0.4_7 already exists.''])"
proof -
  have e: "os_path_exists installed_fs ''assets/openjdk''"
    by (simp add: os_path_exists_def installed_fs_def)
  with extract_zip_existing_destination
    [of jdk_zip "''jdk21.0.4_7/bin/java.exe''" "[]" "''assets/openjdk''" example_lib "''assets''"
        "Some ''openjdk''" installed_fs "''assets/openjdk-21.zip''"]
  show ?thesis
    by (simp add: jdk_zip_def example_lib_def)
qed

text \<open>
  C7 as stated fails: on an archive without entries the call raises \<open>IndexError\<close>, also
  when an override is given and the destination exists.
\<close>

theorem extract_zip_empty_archive_counterexample:
  "os_path_exists installed_fs (path_join example_lib ''assets'' ''openjdk'') \<and>
   extract_zip example_lib installed_fs ''assets/openjdk-21.zip'' empty_zip ''assets''
     (Some ''openjdk'') = Inl IndexError"
  by (simp add: extract_zip_def empty_zip_def example_lib_def os_path_exists_def installed_fs_def)

subsection \<open>The registration session\<close>

lemma py_isdigit_examples:
  "\<not> py_isdigit ''abc123'' \<and> py_isdigit ''123456'' \<and> py_isdigit [CHR 0xC2, CHR 0xB2] \<and>
   \<not> py_isdigit []"
  by (simp add: py_isdigit_def codepoint_isdigit_def unicode_digit_ranges_def
      utf8_continuation_def is_utf8_two_def utf8_two_def)

text \<open>
  C6: \<open>verify\<close> passes a command to the external client exactly when the code is numeric
  in the sense of \<open>isdigit\<close> (at least one character, every character a Unicode digit);
  otherwise it logs \<open>Invalid code\<close> and exits with status 1 without invoking anything.
  \<open>abc123\<close> is rejected, \<open>123456\<close> goes on to the invocation, and so does a code of
  digits outside ASCII such as the superscript two (bytes C2 B2).
\<close>

theorem verify_invokes_iff_isdigit:
  "(invoked (verify run signal_cli_path phone_number code) \<noteq> []) = py_isdigit code \<and>
   (\<not> py_isdigit code \<longrightarrow>
      verify run signal_cli_path phone_number code =
        \<lparr>ended = SystemExit 1, logged = [''Invalid code''], invoked = []\<rparr>) \<and>
   (py_isdigit code \<longrightarrow>
      invoked (verify run signal_cli_path phone_number code) =
        [signal_cli_path @ '' -u '' @ phone_number @ '' verify '' @ code]) \<and>
   \<not> py_isdigit ''abc123'' \<and> py_isdigit ''123456'' \<and> py_isdigit [CHR 0xC2, CHR 0xB2]"
  using py_isdigit_examples by (simp add: verify_def Let_def)

text \<open>C6 on the two codes of the claim.\<close>

theorem verify_invokes_iff_isdigit_witness:
  "verify silent_client ''signal-cli.bat'' ''+491700000000'' ''abc123'' =
     \<lparr>ended = SystemExit 1, logged = [''Invalid code''], invoked = []\<rparr> \<and>
   invoked (verify silent_client ''signal-cli.bat'' ''+491700000000'' ''123456'') =
     [''signal-cli.bat -u +491700000000 verify 123456'']"
  using verify_invokes_iff_isdigit [of silent_client "''signal-cli.bat''" "''+491700000000''" "''abc123''"]
    verify_invokes_iff_isdigit [of silent_client "''signal-cli.bat''" "''+491700000000''" "''123456''"]
  by simp

text \<open>
  C10: the empty code is rejected like any other non-numeric one, although none of its
  characters is a non-digit: \<open>isdigit\<close> requires at least one character.
\<close>

theorem verify_empty_code:
  "\<not> py_isdigit '''' \<and> list_all char_isdigit '''' \<and>
   verify run signal_cli_path phone_number '''' =
     \<lparr>ended = SystemExit 1, logged = [''Invalid code''], invoked = []\<rparr>"
  by (simp add: verify_def py_isdigit_def)

text \<open>
  C9: for an existing path whose image yields no QR region, \<open>add_device\<close> ends with the
  \<open>IndexError\<close> of \<open>decode(img)[0]\<close>, having logged nothing and invoked nothing; it ends
  in its \<open>Failed to decode QR Code\<close> branch exactly when the path exists and the first
  region's payload is empty.
\<close>

theorem add_device_no_qr_code:
  "(os_path_exists fs screenshot \<and> decode_image screenshot = [] \<longrightarrow>
      add_device fs decode_image run signal_cli_path phone_number screenshot =
        \<lparr>ended = Raised IndexError, logged = [], invoked = []\<rparr>) \<and>
   ((add_device fs decode_image run signal_cli_path phone_number screenshot =
        \<lparr>ended = SystemExit 1, logged = [''Failed to decode QR Code''], invoked = []\<rparr>) =
    (os_path_exists fs screenshot \<and> (\<exists>others. decode_image screenshot = [] # others)))"
  by (auto simp: add_device_def Let_def split: list.splits)

text \<open>C9 on an existing file in which the decoder finds nothing.\<close>

theorem add_device_no_qr_code_witness:
  "os_path_exists installed_fs ''assets/openjdk/jdk21.0.4_7/bin/java.exe'' \<and>
   blank_decoder ''assets/openjdk/jdk21.0.4_7/bin/java.exe'' = [] \<and>
   add_device installed_fs blank_decoder silent_client ''signal-cli.bat'' ''+491700000000''
       ''assets/openjdk/jdk21.0.4_7/bin/java.exe'' =
     \<lparr>ended = Raised IndexError, logged = [], invoked = []\<rparr>"
  using add_device_no_qr_code [of installed_fs "''assets/openjdk/jdk21.0.4_7/bin/java.exe''"
      blank_decoder silent_client "''signal-cli.bat''" "''+491700000000''"]
  by (simp add: os_path_exists_def installed_fs_def blank_decoder_def)


end
